theory Spec2Isabelle
  imports Complex_Main "HOL-Library.Log_Nat"
begin

section \<open>PDFora: file manager, Ghostscript invoker and HTTP handlers\<close>

text \<open>
  A shallow embedding of \<^verbatim>\<open>services/fileManager.js\<close>, \<^verbatim>\<open>services/pdfCompressor.js\<close>,
  the two request handlers of \<^verbatim>\<open>server.js\<close> and \<^verbatim>\<open>config/config.js\<close>.

  Byte counts, exit codes and times in milliseconds are \<open>int\<close>. The compression ratio is
  computed in IEEE 754 double precision: a double is the \<open>rat\<close> it denotes, and each
  operation of the source is followed by the rounding \<open>to_double\<close>. The unit and the scaled
  value of \<open>formatBytes\<close> are in exact arithmetic. \<^verbatim>\<open>Math.round\<close> rounds half up, which is
  \<open>round\<close> on \<open>rat\<close> (\<open>\<lfloor>x + 1/2\<rfloor>\<close>). A JavaScript error object is a
  value with its \<^verbatim>\<open>code\<close> and its \<^verbatim>\<open>message\<close>; a function that can throw returns a sum
  whose left injection is the thrown error.
\<close>

subsection \<open>Errors and strings\<close>

datatype js_error = JsError (err_code: "string option") (err_message: string)

text \<open>\<^verbatim>\<open>new Error(message)\<close>: an error without a \<^verbatim>\<open>code\<close> property.\<close>

definition new_Error :: "string \<Rightarrow> js_error" where
  "new_Error msg = JsError None msg"

text \<open>\<^verbatim>\<open>s.includes(sub)\<close>: \<open>sub\<close> occurs in \<open>s\<close> at some position.\<close>

fun str_includes :: "string \<Rightarrow> string \<Rightarrow> bool" where
  "str_includes [] sub = (sub = [])"
| "str_includes (c # cs) sub = (take (length sub) (c # cs) = sub \<or> str_includes cs sub)"

text \<open>
  Decimal rendering of an integer, as string concatenation and template literals render a
  JavaScript number that holds an integer (\<^verbatim>\<open>Date.now()\<close>, an exit code).
\<close>

definition digit :: "int \<Rightarrow> char" where
  "digit n = ''0123456789'' ! nat (n mod 10)"

function show_digits :: "int \<Rightarrow> string" where
  "show_digits n = (if n < 10 then [digit n] else show_digits (n div 10) @ [digit n])"
  by pat_completeness auto
termination
  by (relation "measure nat") auto

declare show_digits.simps [simp del]

definition show_int :: "int \<Rightarrow> string" where
  "show_int i = (if i < 0 then CHR ''-'' # show_digits (- i) else show_digits i)"

text \<open>
  Number-to-string conversion of a non-negative number with at most two decimal places
  (the values \<^verbatim>\<open>Math.round(x * 100) / 100\<close> takes): the integer part, then the
  fractional digits without trailing zeros.
\<close>

definition number_toString :: "rat \<Rightarrow> string" where
  "number_toString x =
     (let h = round (x * 100); fr = h mod 100
      in show_int (h div 100) @
         (if fr = 0 then []
          else CHR ''.'' # digit (fr div 10) # (if fr mod 10 = 0 then [] else [digit fr])))"

subsection \<open>Configuration (\<^verbatim>\<open>config/config.js\<close>)\<close>

text \<open>
  A value of the \<^verbatim>\<open>options\<close> object: a boolean, or a value of another type, held as the
  string a template literal renders it to.
\<close>

datatype opt_value = BoolValue bool | StringValue string

record config =
  maxFileSize :: int
  allowedMimeTypes :: "string list"
  uploadDir :: string
  compressedDir :: string
  maxFileAge :: rat
  ghostscriptPath :: "string option"
  defaultQuality :: string
  options :: "(string \<times> opt_value) list"

text \<open>The backslash of a Windows path.\<close>

definition bs :: string where
  "bs = [CHR 0x5C]"

text \<open>
  The configuration of the repository. The two directories are
  \<^verbatim>\<open>path.join(__dirname, '../uploads')\<close> and \<^verbatim>\<open>path.join(__dirname, '../compressed')\<close>,
  taken as parameters; \<^verbatim>\<open>options\<close> is listed in the order of \<^verbatim>\<open>Object.entries\<close>.
\<close>

definition default_config :: "string \<Rightarrow> string \<Rightarrow> config" where
  "default_config uploads compressed =
     \<lparr> maxFileSize = 250 * 1024 * 1024,
       allowedMimeTypes = [''application/pdf''],
       uploadDir = uploads,
       compressedDir = compressed,
       maxFileAge = 60 * 60 * 1000,
       ghostscriptPath =
         Some (''D:'' @ bs @ ''ghostscriptforpdftool'' @ bs @ ''gs10.06.0'' @ bs @ ''bin'' @ bs
               @ ''gswin64c.exe''),
       defaultQuality = ''/ebook'',
       options =
         [(''dCompatibilityLevel'', StringValue ''1.4''),
          (''dNOPAUSE'', BoolValue True),
          (''dBATCH'', BoolValue True),
          (''dSAFER'', BoolValue True),
          (''dCompressFonts'', BoolValue True),
          (''dCompressPages'', BoolValue True),
          (''dOptimize'', BoolValue True),
          (''dEmbedAllFonts'', BoolValue True),
          (''dSubsetFonts'', BoolValue True),
          (''dAutoRotatePages'', StringValue ''/None''),
          (''dColorImageDownsampleType'', StringValue ''/Bicubic''),
          (''dGrayImageDownsampleType'', StringValue ''/Bicubic'')] \<rparr>"

subsection \<open>File manager: validation (\<^verbatim>\<open>validateFile\<close>)\<close>

text \<open>The Multer file object; \<^verbatim>\<open>req.file\<close> is \<open>None\<close> when no file was uploaded.\<close>

record upload =
  file_path :: string
  mimetype :: string
  file_size :: int
  originalname :: string

record validation =
  success :: bool
  message :: string

text \<open>
  The first argument is the Number-to-string conversion the template literal applies to
  \<^verbatim>\<open>maxSizeMB\<close>, which need not be an integer.
\<close>

definition validateFile :: "(rat \<Rightarrow> string) \<Rightarrow> config \<Rightarrow> upload option \<Rightarrow> validation" where
  "validateFile toString cfg file =
     (case file of
        None \<Rightarrow> \<lparr> success = False, message = ''No file uploaded'' \<rparr>
      | Some f \<Rightarrow>
          if mimetype f \<notin> set (allowedMimeTypes cfg)
          then \<lparr> success = False, message = ''Only PDF files are allowed'' \<rparr>
          else if file_size f > maxFileSize cfg
          then let maxSizeMB = of_int (maxFileSize cfg) / (1024 * 1024)
               in \<lparr> success = False,
                    message = ''File size exceeds '' @ toString maxSizeMB @ '' MB limit'' \<rparr>
          else \<lparr> success = True, message = ''File is valid'' \<rparr>)"

subsection \<open>File manager: sizes (\<^verbatim>\<open>formatBytes\<close>)\<close>

text \<open>
  \<^verbatim>\<open>Math.floor(Math.log(bytes) / Math.log(k))\<close> with \<open>k = 1024\<close>, for a positive
  integer, in exact arithmetic: the number of times \<open>bytes\<close> can be divided by 1024
  before it drops below 1024.
\<close>

function unit_index :: "int \<Rightarrow> nat" where
  "unit_index n = (if n < 1024 then 0 else Suc (unit_index (n div 1024)))"
  by pat_completeness auto
termination
  by (relation "measure nat") auto

declare unit_index.simps [simp del]

definition sizes :: "string list" where
  "sizes = [''Bytes'', ''KB'', ''MB'', ''GB'']"

text \<open>\<^verbatim>\<open>sizes[i]\<close>: an index past the end reads \<^verbatim>\<open>undefined\<close>, which concatenation renders.\<close>

definition sizes_at :: "nat \<Rightarrow> string" where
  "sizes_at i = (if i < length sizes then sizes ! i else ''undefined'')"

text \<open>
  For a negative argument \<^verbatim>\<open>Math.log\<close> is \<^verbatim>\<open>NaN\<close>, and so are the index and the scaled
  value: the result is \<^verbatim>\<open>'NaN undefined'\<close>.
\<close>

definition formatBytes :: "int \<Rightarrow> string" where
  "formatBytes bytes =
     (if bytes = 0 then ''0 Bytes''
      else if bytes < 0 then ''NaN undefined''
      else let k = 1024::rat;
               i = unit_index bytes
           in number_toString (of_int (round ((of_int bytes / k ^ i) * 100)) / 100)
              @ '' '' @ sizes_at i)"

subsection \<open>Double-precision arithmetic\<close>

text \<open>
  The numbers of \<^verbatim>\<open>_calculateCompressionRatio\<close> are IEEE 754 binary64 values. A value is
  held as the rational it denotes; \<open>to_double\<close> rounds a rational to the nearest binary64
  value, ties to even: 53 significant bits, so the last bit of a value in
  \<open>[2 ^ e, 2 ^ (e + 1))\<close> weighs \<open>2 ^ (e - 52)\<close>. The exponent range is not bounded:
  the byte counts of files and what is computed from them stay far inside it.
\<close>

function bit_length :: "int \<Rightarrow> nat" where
  "bit_length n = (if n \<le> 0 then 0 else Suc (bit_length (n div 2)))"
  by pat_completeness auto
termination
  by (relation "measure nat") auto

declare bit_length.simps [simp del]

definition pow2 :: "int \<Rightarrow> rat" where
  "pow2 k = (if 0 \<le> k then 2 ^ nat k else 1 / 2 ^ nat (- k))"

text \<open>For a positive rational \<open>a\<close>, the \<open>e\<close> with \<open>2 ^ e \<le> a < 2 ^ (e + 1)\<close>.\<close>

definition floor_log2 :: "rat \<Rightarrow> int" where
  "floor_log2 a =
     (case quotient_of a of (p, q) \<Rightarrow>
        let d = int (bit_length p) - int (bit_length q)
        in if pow2 d \<le> a then d else d - 1)"

definition round_half_even :: "rat \<Rightarrow> int" where
  "round_half_even m =
     (let f = \<lfloor>m\<rfloor>; r = m - of_int f
      in if r < 1 / 2 then f else if 1 / 2 < r then f + 1 else if even f then f else f + 1)"

definition to_double :: "rat \<Rightarrow> rat" where
  "to_double x =
     (if x = 0 then 0
      else let a = \<bar>x\<bar>; u = pow2 (floor_log2 a - 52)
           in sgn x * of_int (round_half_even (a / u)) * u)"

subsection \<open>Compression ratio (\<^verbatim>\<open>_calculateCompressionRatio\<close>)\<close>

text \<open>
  The arguments are byte counts, numbers that hold integers (a file size is below
  \<open>2 ^ 53\<close>, where every integer is a binary64 value). Every operation of the source
  rounds its exact result to binary64: the subtraction, the division, the product with
  100, the product with 10 and the division by 10. \<^verbatim>\<open>Math.round\<close> and \<^verbatim>\<open>Math.max\<close> are
  exact.
\<close>

definition calculateCompressionRatio :: "int \<Rightarrow> int \<Rightarrow> rat" where
  "calculateCompressionRatio originalBytes compressedBytes =
     (if originalBytes = 0 then 0
      else let ratio = to_double (to_double (to_double (of_int originalBytes - of_int compressedBytes)
                          / of_int originalBytes) * 100)
           in max 0 (to_double (of_int (round (to_double (ratio * 10))) / 10)))"


subsection \<open>Compressor: argument list (\<^verbatim>\<open>_buildGhostscriptCommand\<close>)\<close>

text \<open>The string one entry of \<^verbatim>\<open>options\<close> adds to the front of the argument list.\<close>

definition option_flag :: "string \<times> opt_value \<Rightarrow> string" where
  "option_flag kv =
     (case kv of (key, val) \<Rightarrow>
        (case val of
           BoolValue b \<Rightarrow> ''-'' @ key
         | StringValue v \<Rightarrow> ''-'' @ key @ ''='' @ v))"

text \<open>\<^verbatim>\<open>args.unshift(x)\<close> puts \<open>x\<close> in front; the loop runs over the entries in order.\<close>

definition buildGhostscriptCommand :: "config \<Rightarrow> string \<Rightarrow> string \<Rightarrow> string list" where
  "buildGhostscriptCommand cfg inputPath outputPath =
     foldl (\<lambda>args kv. option_flag kv # args)
       [''-sDEVICE=pdfwrite'',
        ''-dPDFSETTINGS='' @ defaultQuality cfg,
        ''-sOutputFile='' @ outputPath,
        inputPath]
       (options cfg)"

subsection \<open>Compressor: running Ghostscript (\<^verbatim>\<open>_executeGhostscript\<close>)\<close>

text \<open>
  The host the service runs on, as far as the candidate list reads it: the platform, two
  environment variables, and the file-system calls \<^verbatim>\<open>fs.existsSync\<close>,
  \<^verbatim>\<open>fs.readdirSync\<close> (which can throw) and \<^verbatim>\<open>path.join\<close>.
\<close>

record host =
  platform :: string
  env_ProgramFiles :: "string option"
  env_ProgramFiles_x86 :: "string option"
  existsSync :: "string \<Rightarrow> bool"
  readdirSync :: "string \<Rightarrow> js_error + string list"
  path_join :: "string list \<Rightarrow> string"

text \<open>String concatenation renders an unset environment variable as \<^verbatim>\<open>undefined\<close>.\<close>

definition env_string :: "string option \<Rightarrow> string" where
  "env_string v = (case v of None \<Rightarrow> ''undefined'' | Some s \<Rightarrow> s)"

definition commonPaths :: "host \<Rightarrow> string list" where
  "commonPaths h =
     [''C:'' @ bs @ ''Program Files'' @ bs @ ''gs'',
      ''C:'' @ bs @ ''Program Files (x86)'' @ bs @ ''gs'',
      env_string (env_ProgramFiles h) @ bs @ ''gs'',
      env_string (env_ProgramFiles_x86 h) @ bs @ ''gs'']"

text \<open>
  The executables one installation root contributes: for every version directory with a
  \<^verbatim>\<open>bin\<close> directory the 64-bit and then the 32-bit executable. An error of
  \<^verbatim>\<open>readdirSync\<close> is caught and the root contributes nothing.
\<close>

definition version_candidates :: "host \<Rightarrow> string \<Rightarrow> string list" where
  "version_candidates h basePath =
     (if existsSync h basePath then
        (case readdirSync h basePath of
           Inl err \<Rightarrow> []
         | Inr versions \<Rightarrow>
             concat (map (\<lambda>version.
               let binPath = path_join h [basePath, version, ''bin'']
               in if existsSync h binPath
                  then [path_join h [binPath, ''gswin64c.exe''],
                        path_join h [binPath, ''gswin32c.exe'']]
                  else []) versions))
      else [])"

text \<open>The candidate list; a configured path counts when it is truthy (set and not empty).\<close>

definition gsCommands :: "config \<Rightarrow> host \<Rightarrow> string list" where
  "gsCommands cfg h =
     (case ghostscriptPath cfg of
        None \<Rightarrow> []
      | Some p \<Rightarrow> if p = [] then [] else [p])
     @ [''gs'', ''gswin64c'', ''gswin32c'']
     @ (if platform h = ''win32'' then concat (map (version_candidates h) (commonPaths h)) else [])"

text \<open>
  What a spawned child reports to the handlers \<open>tryCommand\<close> registers on it: the
  \<^verbatim>\<open>error\<close> event with its error, or the \<^verbatim>\<open>close\<close> event with the exit code (\<^verbatim>\<open>null\<close>,
  here \<open>None\<close>, for a child killed by a signal) and the text collected from its standard
  error. A child can report more than once: after the \<^verbatim>\<open>error\<close> of a spawn that failed,
  the runtime also emits \<^verbatim>\<open>close\<close> on the same child, with the negative error number as
  the code (\<open>-2\<close> for \<^verbatim>\<open>ENOENT\<close>).
\<close>

datatype child_event = ErrorEvent js_error | CloseEvent "int option" string

definition not_found_message :: string where
  "not_found_message =
     ''Ghostscript not found. Please install Ghostscript and ensure it is in your PATH. ''
     @ ''Visit https://www.ghostscript.com/download/gsdnld.html''"

definition show_code :: "int option \<Rightarrow> string" where
  "show_code code = (case code of None \<Rightarrow> ''null'' | Some n \<Rightarrow> show_int n)"

definition exit_message :: "int option \<Rightarrow> string \<Rightarrow> string" where
  "exit_message code stderr = ''Ghostscript exited with code '' @ show_code code @ '': '' @ stderr"

text \<open>
  The state the closures of \<^verbatim>\<open>_executeGhostscript\<close> share: the index of the current
  candidate, how the promise is settled, if it is, and the children spawned so far, each
  with its command and arguments, in the order they were spawned.
\<close>

record invocation =
  currentCommandIndex :: nat
  settled :: "(js_error + unit) option"
  spawned :: "(string \<times> string list) list"

text \<open>\<^verbatim>\<open>resolve\<close> and \<^verbatim>\<open>reject\<close>: settling a promise that is settled has no effect.\<close>

definition settle :: "js_error + unit \<Rightarrow> invocation \<Rightarrow> invocation" where
  "settle r st = (if settled st = None then st \<lparr> settled := Some r \<rparr> else st)"

text \<open>\<open>tryCommand\<close>, up to the registration of the handlers on the spawned child.\<close>

definition tryCommand :: "string list \<Rightarrow> string list \<Rightarrow> invocation \<Rightarrow> invocation" where
  "tryCommand args cmds st =
     (if currentCommandIndex st \<ge> length cmds
      then settle (Inl (new_Error not_found_message)) st
      else let command = cmds ! currentCommandIndex st
           in st \<lparr> spawned := spawned st @ [(command, args)] \<rparr>)"

text \<open>The handler of \<^verbatim>\<open>error\<close> and the handler of \<^verbatim>\<open>close\<close>.\<close>

definition on_error :: "string list \<Rightarrow> string list \<Rightarrow> js_error \<Rightarrow> invocation \<Rightarrow> invocation" where
  "on_error args cmds error st =
     (if err_code error = Some ''ENOENT''
      then tryCommand args cmds (st \<lparr> currentCommandIndex := currentCommandIndex st + 1 \<rparr>)
      else settle (Inl error) st)"

definition on_close ::
  "string list \<Rightarrow> string list \<Rightarrow> int option \<Rightarrow> string \<Rightarrow> invocation \<Rightarrow> invocation" where
  "on_close args cmds code stderr st =
     (if code = Some 0 then settle (Inr ()) st
      else if int (currentCommandIndex st) < int (length cmds) - 1
      then tryCommand args cmds (st \<lparr> currentCommandIndex := currentCommandIndex st + 1 \<rparr>)
      else settle (Inl (new_Error (exit_message code stderr))) st)"

text \<open>
  The runtime delivers the events one at a time, each to the handler registered on the
  child it comes from. A schedule is the list of the events in the order they are
  delivered, each with the number of its child (the position in \<open>spawned\<close>); an event of a
  child that is not spawned yet cannot be delivered (\<open>None\<close>).
\<close>

definition deliver ::
  "string list \<Rightarrow> string list \<Rightarrow> nat \<times> child_event \<Rightarrow> invocation \<Rightarrow> invocation option" where
  "deliver args cmds ev st =
     (case ev of (child, e) \<Rightarrow>
        if child \<ge> length (spawned st) then None
        else Some (case e of
                     ErrorEvent error \<Rightarrow> on_error args cmds error st
                   | CloseEvent code stderr \<Rightarrow> on_close args cmds code stderr st))"

fun run_events ::
  "string list \<Rightarrow> string list \<Rightarrow> (nat \<times> child_event) list \<Rightarrow> invocation \<Rightarrow> invocation option" where
  "run_events args cmds [] st = Some st"
| "run_events args cmds (ev # evs) st =
     (case deliver args cmds ev st of
        None \<Rightarrow> None
      | Some st' \<Rightarrow> run_events args cmds evs st')"

text \<open>
  \<^verbatim>\<open>_executeGhostscript\<close>: the candidate list is built, \<open>tryCommand\<close> runs once, and the
  events of the schedule are handled.
\<close>

definition executeGhostscript ::
  "config \<Rightarrow> host \<Rightarrow> string list \<Rightarrow> (nat \<times> child_event) list \<Rightarrow> invocation option" where
  "executeGhostscript cfg h args events =
     run_events args (gsCommands cfg h) events
       (tryCommand args (gsCommands cfg h)
          \<lparr> currentCommandIndex = 0, settled = None, spawned = [] \<rparr>)"

subsection \<open>Compressor: \<^verbatim>\<open>compress\<close>\<close>

text \<open>
  \<^verbatim>\<open>fileManager.getFileSize\<close>: the byte count \<^verbatim>\<open>fs.stat\<close> reports and its formatted
  form; an error of \<^verbatim>\<open>fs.stat\<close> is wrapped. What \<^verbatim>\<open>fs.stat\<close> answers is a parameter.
\<close>

record file_size_info =
  bytes :: int
  formatted :: string

definition getFileSize :: "(string \<Rightarrow> js_error + int) \<Rightarrow> string \<Rightarrow> js_error + file_size_info" where
  "getFileSize stat filePath =
     (case stat filePath of
        Inl error \<Rightarrow> Inl (new_Error (''Error getting file size: '' @ err_message error))
      | Inr n \<Rightarrow> Inr \<lparr> bytes = n, formatted = formatBytes n \<rparr>)"

record compress_result =
  result_success :: bool
  originalSize :: string
  compressedSize :: string
  originalBytes :: int
  compressedBytes :: int
  compressionRatio :: rat
  savedBytes :: int
  savedFormatted :: string

text \<open>
  The body of the \<^verbatim>\<open>try\<close> block of \<^verbatim>\<open>compress\<close>. \<open>stat_before\<close> is what \<^verbatim>\<open>fs.stat\<close>
  answers when \<^verbatim>\<open>compress\<close> starts, \<open>stat_after\<close> what it answers once the promise of
  \<^verbatim>\<open>_executeGhostscript\<close> is settled. The result is \<open>None\<close> when the promise is not
  settled by the schedule: \<^verbatim>\<open>compress\<close> does not return.
\<close>

definition compress_try ::
  "(string \<Rightarrow> js_error + int) \<Rightarrow> (string \<Rightarrow> js_error + int) \<Rightarrow> config \<Rightarrow> host
     \<Rightarrow> (nat \<times> child_event) list \<Rightarrow> string \<Rightarrow> string \<Rightarrow> (js_error + compress_result) option" where
  "compress_try stat_before stat_after cfg h events inputPath outputPath =
     (case getFileSize stat_before inputPath of
        Inl error \<Rightarrow> Some (Inl error)
      | Inr original \<Rightarrow>
          let gsCommand = buildGhostscriptCommand cfg inputPath outputPath
          in (case executeGhostscript cfg h gsCommand events of
                None \<Rightarrow> None
              | Some st \<Rightarrow>
                  (case settled st of
                     None \<Rightarrow> None
                   | Some (Inl error) \<Rightarrow> Some (Inl error)
                   | Some (Inr u) \<Rightarrow>
                       (case getFileSize stat_after outputPath of
                          Inl error \<Rightarrow> Some (Inl error)
                        | Inr compressed \<Rightarrow>
                            let ratio = calculateCompressionRatio (bytes original) (bytes compressed)
                            in Some (Inr \<lparr> result_success = True,
                                 originalSize = formatted original,
                                 compressedSize = formatted compressed,
                                 originalBytes = bytes original,
                                 compressedBytes = bytes compressed,
                                 compressionRatio = ratio,
                                 savedBytes = bytes original - bytes compressed,
                                 savedFormatted = formatBytes (bytes original - bytes compressed) \<rparr>)))))"

text \<open>The \<^verbatim>\<open>catch\<close> block passes a \<^verbatim>\<open>Ghostscript not found\<close> error through and wraps any other.\<close>

definition compress ::
  "(string \<Rightarrow> js_error + int) \<Rightarrow> (string \<Rightarrow> js_error + int) \<Rightarrow> config \<Rightarrow> host
     \<Rightarrow> (nat \<times> child_event) list \<Rightarrow> string \<Rightarrow> string \<Rightarrow> (js_error + compress_result) option" where
  "compress stat_before stat_after cfg h events inputPath outputPath =
     (case compress_try stat_before stat_after cfg h events inputPath outputPath of
        None \<Rightarrow> None
      | Some (Inl error) \<Rightarrow>
          if str_includes (err_message error) ''Ghostscript not found''
          then Some (Inl error)
          else Some (Inl (new_Error (''Compression failed: '' @ err_message error)))
      | Some (Inr result) \<Rightarrow> Some (Inr result))"

subsection \<open>File system\<close>

text \<open>
  The two storage directories as the file manager sees them. A directory path maps to the
  error \<^verbatim>\<open>fs.readdir\<close> fails with (\<^verbatim>\<open>ENOENT\<close> when the directory is absent), or to its
  entries. An entry has its name, what \<^verbatim>\<open>fs.stat\<close> returns for it (an error, or the
  modification time \<^verbatim>\<open>mtimeMs\<close>) and the error \<^verbatim>\<open>fs.unlink\<close> fails with, if it fails.
  The path \<^verbatim>\<open>path.join(directory, file)\<close> is the pair of the directory and the name.
\<close>

record dirent =
  entry_name :: string
  entry_stat :: "js_error + rat"
  entry_unlink_error :: "js_error option"

type_synonym filesystem = "string \<Rightarrow> js_error + dirent list"

definition no_entry :: "string \<Rightarrow> js_error" where
  "no_entry p = JsError (Some ''ENOENT'') (''ENOENT: no such file or directory, '' @ p)"


definition lookup_entry :: "filesystem \<Rightarrow> string \<Rightarrow> string \<Rightarrow> js_error + dirent" where
  "lookup_entry fs directory file =
     (case fs directory of
        Inl error \<Rightarrow> Inl error
      | Inr entries \<Rightarrow>
          (case find (\<lambda>e. entry_name e = file) entries of
             None \<Rightarrow> Inl (no_entry file)
           | Some e \<Rightarrow> Inr e))"


definition fs_unlink :: "filesystem \<Rightarrow> string \<Rightarrow> string \<Rightarrow> js_error + filesystem" where
  "fs_unlink fs directory file =
     (case lookup_entry fs directory file of
        Inl error \<Rightarrow> Inl error
      | Inr e \<Rightarrow>
          (case entry_unlink_error e of
             Some error \<Rightarrow> Inl error
           | None \<Rightarrow>
               Inr (fs (directory :=
                 map_sum id (filter (\<lambda>e. entry_name e \<noteq> file)) (fs directory)))))"

text \<open>\<^verbatim>\<open>fileExists\<close>: whether \<^verbatim>\<open>fs.access\<close> succeeds.\<close>

definition fileExists :: "filesystem \<Rightarrow> string \<Rightarrow> string \<Rightarrow> bool" where
  "fileExists fs directory file = (case lookup_entry fs directory file of Inl error \<Rightarrow> False | Inr e \<Rightarrow> True)"

subsection \<open>File manager: cleanup (\<^verbatim>\<open>cleanupOldFiles\<close>, \<^verbatim>\<open>_cleanDirectory\<close>, \<^verbatim>\<open>deleteFile\<close>)\<close>

datatype log_entry =
    LogCleaned nat
  | LogCleanupError js_error
  | LogDeleted string
  | LogDeleteError string js_error
  | LogDownloadError js_error





definition deleteFile :: "filesystem \<Rightarrow> string \<Rightarrow> string \<Rightarrow> log_entry list \<times> filesystem" where
  "deleteFile fs directory file =
     (case fs_unlink fs directory file of
        Inl error \<Rightarrow> ([LogDeleteError file error], fs)
      | Inr fs' \<Rightarrow> ([LogDeleted file], fs'))"

subsection \<open>Server: the download handler (\<^verbatim>\<open>GET /api/download/:filename\<close>)\<close>

datatype download_response = NotFound404 | Download string string

text \<open>
  The argument \<open>err\<close> is what \<^verbatim>\<open>res.download\<close> passes to its callback when the transfer
  is over: an error, or nothing when the transfer succeeded.
\<close>

definition download_handler ::
  "config \<Rightarrow> filesystem \<Rightarrow> js_error option \<Rightarrow> string \<Rightarrow> download_response \<times> log_entry list \<times> filesystem" where
  "download_handler cfg fs err filename =
     (if \<not> fileExists fs (compressedDir cfg) filename then (NotFound404, [], fs)
      else
        (case err of
           Some e \<Rightarrow> (Download (compressedDir cfg) filename, [LogDownloadError e], fs)
         | None \<Rightarrow>
             (case deleteFile fs (compressedDir cfg) filename of
                (logged, fs') \<Rightarrow> (Download (compressedDir cfg) filename, logged, fs'))))"

subsection \<open>Server: the output file name (\<^verbatim>\<open>POST /api/compress\<close>)\<close>

text \<open>\<^verbatim>\<open>s.replace(pattern, replacement)\<close> with a string pattern: the first occurrence only.\<close>

fun replace_first :: "string \<Rightarrow> string \<Rightarrow> string \<Rightarrow> string" where
  "replace_first pattern replacement [] = (if pattern = [] then replacement else [])"
| "replace_first pattern replacement (c # cs) =
     (if take (length pattern) (c # cs) = pattern
      then replacement @ drop (length pattern) (c # cs)
      else c # replace_first pattern replacement cs)"

definition outputFilename :: "upload \<Rightarrow> int \<Rightarrow> string" where
  "outputFilename file timestamp =
     (let originalName = replace_first ''.pdf'' [] (originalname file);
          namePrefix = take 8 originalName
      in ''comp'' @ namePrefix @ ''-'' @ show_int timestamp @ ''.pdf'')"

text \<open>
  The claimed format, from the specification's words: the name with its extension (the
  last dot and what follows it) stripped.
\<close>

definition strip_extension :: "string \<Rightarrow> string" where
  "strip_extension name =
     (if CHR ''.'' \<in> set name then rev (tl (dropWhile (\<lambda>c. c \<noteq> CHR ''.'') (rev name))) else name)"

definition spec_outputFilename :: "upload \<Rightarrow> int \<Rightarrow> string" where
  "spec_outputFilename file timestamp =
     ''comp'' @ take 8 (strip_extension (originalname file)) @ ''-'' @ show_int timestamp @ ''.pdf''"

subsection \<open>Predicates of the sweep statements\<close>





subsection \<open>Example inputs\<close>

definition config0 :: config where
  "config0 = default_config ''/srv/pdfora/uploads'' ''/srv/pdfora/compressed''"

definition png_upload :: upload where
  "png_upload = \<lparr> file_path = ''/srv/pdfora/uploads/upload-1700000000000-1.pdf'',
     mimetype = ''image/png'', file_size = 262144001, originalname = ''scan.png'' \<rparr>"

definition big_pdf_upload :: upload where
  "big_pdf_upload = \<lparr> file_path = ''/srv/pdfora/uploads/upload-1700000000000-2.pdf'',
     mimetype = ''application/pdf'', file_size = 262144001, originalname = ''atlas.pdf'' \<rparr>"

definition small_pdf_upload :: upload where
  "small_pdf_upload = \<lparr> file_path = ''/srv/pdfora/uploads/upload-1700000000000-3.pdf'',
     mimetype = ''application/pdf'', file_size = 5000000, originalname = ''report.pdf'' \<rparr>"

definition linux_host :: host where
  "linux_host =
     \<lparr> platform = ''linux'', env_ProgramFiles = None, env_ProgramFiles_x86 = None,
       existsSync = (\<lambda>p. False),
       readdirSync = (\<lambda>p. Inl (JsError (Some ''ENOENT'') ''no such file or directory'')),
       path_join = (\<lambda>parts. case parts of [] \<Rightarrow> ''.'' | p # ps \<Rightarrow> foldl (\<lambda>a b. a @ ''/'' @ b) p ps) \<rparr>"

definition enoent :: "string \<Rightarrow> js_error" where
  "enoent command = JsError (Some ''ENOENT'') (''spawn '' @ command @ '' ENOENT'')"

text \<open>Example answers of \<^verbatim>\<open>fs.stat\<close>: the files with their sizes, as an association list.\<close>

definition stat_files :: "(string \<times> int) list \<Rightarrow> string \<Rightarrow> js_error + int" where
  "stat_files w p =
     (case map_of w p of
        None \<Rightarrow> Inl (JsError (Some ''ENOENT'') (''ENOENT: no such file or directory, stat '' @ p))
      | Some n \<Rightarrow> Inr n)"

definition example_input :: string where
  "example_input = ''/srv/pdfora/uploads/upload-1700000000000-3.pdf''"

definition example_output :: string where
  "example_output = ''/srv/pdfora/compressed/compreport-1700000000123.pdf''"

definition grown_result :: compress_result where
  "grown_result =
     \<lparr> result_success = True, originalSize = ''1000 Bytes'', compressedSize = ''1.17 KB'',
       originalBytes = 1000, compressedBytes = 1200, compressionRatio = 0,
       savedBytes = - 200, savedFormatted = ''NaN undefined'' \<rparr>"


definition plain_file :: "string \<Rightarrow> rat \<Rightarrow> dirent" where
  "plain_file n mtimeMs = \<lparr> entry_name = n, entry_stat = Inr mtimeMs, entry_unlink_error = None \<rparr>"

text \<open>
  With the default maximum age of 3600000 ms: one upload 2 ms past the limit and one 1 ms
  short of it; one output exactly at the limit and one 1 ms past it.
\<close>

definition example_fs :: filesystem where
  "example_fs =
     (\<lambda>d. if d = ''/srv/pdfora/uploads''
          then Inr [plain_file ''upload-1700006399998-7.pdf'' 1700006399998,
                    plain_file ''upload-1700006400001-8.pdf'' 1700006400001]
          else if d = ''/srv/pdfora/compressed''
          then Inr [plain_file ''compreport-1700006400000.pdf'' 1700006400000,
                    plain_file ''compatlas-1700006399999.pdf'' 1700006399999]
          else Inl (no_entry d))"


definition eperm :: js_error where
  "eperm = JsError (Some ''EPERM'') ''EPERM: operation not permitted''"




definition econnreset :: js_error where
  "econnreset = JsError (Some ''ECONNRESET'') ''Request aborted''"

definition dotted_upload :: upload where
  "dotted_upload = \<lparr> file_path = ''/srv/pdfora/uploads/upload-1700000000000-4.pdf'',
     mimetype = ''application/pdf'', file_size = 5000000, originalname = ''v1.pdf.final.pdf'' \<rparr>"



definition locked_fs :: filesystem where
  "locked_fs = example_fs (''/srv/pdfora/compressed'' :=
     Inr [\<lparr> entry_name = ''compreport-1700006400000.pdf'', entry_stat = Inr 1700006400000,
            entry_unlink_error = Some eperm \<rparr>])"

text \<open>The configuration with automatic detection (\<^verbatim>\<open>ghostscriptPath: null\<close>).\<close>

definition config_auto :: config where
  "config_auto = config0 \<lparr> ghostscriptPath := None \<rparr>"

text \<open>
  A Windows host with one Ghostscript version installed under \<^verbatim>\<open>C:\Program Files\gs\<close>;
  \<^verbatim>\<open>path.join\<close> puts a backslash between the parts.
\<close>

definition windows_host :: host where
  "windows_host =
     \<lparr> platform = ''win32'',
       env_ProgramFiles = Some (''C:'' @ bs @ ''Program Files''),
       env_ProgramFiles_x86 = Some (''C:'' @ bs @ ''Program Files (x86)''),
       existsSync = (\<lambda>p. p = ''C:'' @ bs @ ''Program Files'' @ bs @ ''gs''
                      \<or> p = ''C:'' @ bs @ ''Program Files'' @ bs @ ''gs'' @ bs @ ''gs10.02.1'' @ bs @ ''bin''),
       readdirSync = (\<lambda>p. if p = ''C:'' @ bs @ ''Program Files'' @ bs @ ''gs''
                          then Inr [''gs10.02.1'', ''uninstall.log'']
                          else Inl (JsError (Some ''ENOENT'') ''no such file or directory'')),
       path_join = (\<lambda>parts. case parts of [] \<Rightarrow> ''.'' | p # ps \<Rightarrow> foldl (\<lambda>a b. a @ bs @ b) p ps) \<rparr>"

text \<open>
  On \<open>linux_host\<close> with the default configuration: the configured Windows path cannot be
  found, \<^verbatim>\<open>gs\<close> is installed and exits with 0 when it is done, \<^verbatim>\<open>gswin64c\<close> and
  \<^verbatim>\<open>gswin32c\<close> cannot be found. Every child that cannot be found reports \<^verbatim>\<open>error\<close> and
  then \<^verbatim>\<open>close\<close> with code \<open>-2\<close>.
\<close>

definition gs_installed_schedule :: "(nat \<times> child_event) list" where
  "gs_installed_schedule =
     [(0, ErrorEvent (enoent (gsCommands config0 linux_host ! 0))),
      (0, CloseEvent (Some (- 2)) []),
      (2, ErrorEvent (enoent ''gswin64c'')),
      (3, ErrorEvent (enoent ''gswin32c'')),
      (1, CloseEvent (Some 0) []),
      (2, CloseEvent (Some (- 2)) []),
      (3, CloseEvent (Some (- 2)) [])]"

text \<open>With automatic detection \<^verbatim>\<open>gs\<close> is the first candidate; it runs and exits with 0.\<close>

definition gs_first_schedule :: "(nat \<times> child_event) list" where
  "gs_first_schedule = [(0, CloseEvent (Some 0) [])]"

text \<open>
  With automatic detection on \<open>linux_host\<close>: \<^verbatim>\<open>gs\<close> and \<^verbatim>\<open>gswin64c\<close> cannot be found,
  \<^verbatim>\<open>gswin32c\<close>, the third and last candidate, runs and exits with 0.
\<close>

definition third_works_schedule :: "(nat \<times> child_event) list" where
  "third_works_schedule =
     [(0, ErrorEvent (enoent ''gs'')),
      (0, CloseEvent (Some (- 2)) []),
      (1, ErrorEvent (enoent ''gswin64c'')),
      (2, CloseEvent (Some 0) []),
      (1, CloseEvent (Some (- 2)) [])]"

section \<open>Theorems\<close>

subsection \<open>Compression ratio\<close>

lemma pow2_pos: "0 < pow2 k"
  by (simp add: pow2_def)

lemma round_half_even_nonneg: "0 \<le> m \<Longrightarrow> 0 \<le> round_half_even m"
  by (simp add: round_half_even_def Let_def)


lemma to_double_nonpos: "x \<le> 0 \<Longrightarrow> to_double x \<le> 0"
proof -
  assume x: "x \<le> 0"
  let ?u = "pow2 (floor_log2 \<bar>x\<bar> - 52)"
  have "0 \<le> \<bar>x\<bar> / ?u" using pow2_pos [of "floor_log2 \<bar>x\<bar> - 52"] by simp
  then have "0 \<le> round_half_even (\<bar>x\<bar> / ?u)" by (rule round_half_even_nonneg)
  then have "0 \<le> of_int (round_half_even (\<bar>x\<bar> / ?u)) * ?u"
    using pow2_pos [of "floor_log2 \<bar>x\<bar> - 52"] by simp
  with x show ?thesis by (simp add: to_double_def Let_def sgn_if)
qed


lemma calculateCompressionRatio_nonneg: "0 \<le> calculateCompressionRatio ob cb"
  by (simp add: calculateCompressionRatio_def Let_def)


lemma calculateCompressionRatio_larger_output:
  assumes "0 \<le> ob" "ob < cb"
  shows "calculateCompressionRatio ob cb = 0"
proof (cases "ob = 0")
  case True
  then show ?thesis by (simp add: calculateCompressionRatio_def)
next
  case False
  with assms have pos: "0 < ob" by simp
  have "(of_int ob - of_int cb :: rat) \<le> 0" using assms by simp
  then have "to_double (of_int ob - of_int cb) \<le> 0" by (rule to_double_nonpos)
  with pos have "to_double (of_int ob - of_int cb) / of_int ob \<le> 0"
    by (simp add: divide_le_0_iff)
  then have "to_double (to_double (of_int ob - of_int cb) / of_int ob) \<le> 0"
    by (rule to_double_nonpos)
  then have "to_double (to_double (of_int ob - of_int cb) / of_int ob) * 100 \<le> 0"
    by (simp add: mult_le_0_iff)
  then have "to_double (to_double (to_double (of_int ob - of_int cb) / of_int ob) * 100) \<le> 0"
    by (rule to_double_nonpos)
  then have "to_double (to_double (to_double (of_int ob - of_int cb) / of_int ob) * 100) * 10 \<le> 0"
    by (simp add: mult_le_0_iff)
  then have "to_double (to_double (to_double (to_double (of_int ob - of_int cb) / of_int ob) * 100) * 10) \<le> 0"
    by (rule to_double_nonpos)
  then have "round (to_double (to_double (to_double (to_double
      (of_int ob - of_int cb) / of_int ob) * 100) * 10)) \<le> 0"
    by (simp add: round_def floor_le_iff)
  then have "of_int (round (to_double (to_double (to_double (to_double
      (of_int ob - of_int cb) / of_int ob) * 100) * 10))) / (10::rat) \<le> 0"
    by (simp add: divide_le_0_iff)
  then have "to_double (of_int (round (to_double (to_double (to_double (to_double
      (of_int ob - of_int cb) / of_int ob) * 100) * 10))) / 10) \<le> 0"
    by (rule to_double_nonpos)
  with False show ?thesis by (simp add: calculateCompressionRatio_def Let_def max_def)
qed


















subsection \<open>Strings and unit index\<close>

lemma str_includes_prefix: "str_includes (ys @ zs) ys"
proof (cases "ys @ zs")
  case Nil
  then show ?thesis by simp
next
  case (Cons a l)
  have "take (length ys) (ys @ zs) = ys" by simp
  then show ?thesis unfolding Cons by simp
qed

lemma str_includes_append: "str_includes (xs @ ys @ zs) ys"
  by (induction xs) (auto simp: str_includes_prefix)

lemma unit_index_bounds: "0 < n \<Longrightarrow> 1024 ^ unit_index n \<le> n \<and> n < 1024 ^ Suc (unit_index n)"
proof (induction n rule: unit_index.induct)
  case (1 n)
  show ?case
  proof (cases "n < 1024")
    case True
    with 1 show ?thesis by (simp add: unit_index.simps [of n])
  next
    case False
    then have pos: "0 < n div 1024" by (simp add: pos_imp_zdiv_pos_iff)
    from 1 False pos have ih: "1024 ^ unit_index (n div 1024) \<le> n div 1024"
      "n div 1024 < 1024 ^ Suc (unit_index (n div 1024))" by auto
    have u: "unit_index n = Suc (unit_index (n div 1024))"
      using False by (simp add: unit_index.simps [of n])
    from ih(1) have "1024 * 1024 ^ unit_index (n div 1024) \<le> n" by simp
    moreover from ih(2) have "n < 1024 * 1024 ^ Suc (unit_index (n div 1024))" by simp
    ultimately show ?thesis using u by simp
  qed
qed

lemma unit_index_floor_log: "0 < n \<Longrightarrow> \<lfloor>log 1024 (real_of_int n)\<rfloor> = int (unit_index n)"
proof -
  assume pos: "0 < n"
  from unit_index_bounds [OF pos]
  have "1024 ^ unit_index n \<le> nat n" "nat n < 1024 ^ (unit_index n + 1)"
    using pos by (simp_all add: le_nat_iff nat_less_iff)
  then have "\<lfloor>log (real 1024) (real (nat n))\<rfloor> = int (unit_index n)"
    by (intro floor_log_nat_eq_if) simp_all
  with pos show ?thesis by simp
qed

lemma unit_index_less_4: "0 < n \<Longrightarrow> n < 1024 ^ 4 \<Longrightarrow> unit_index n < 4"
proof (rule ccontr)
  assume pos: "0 < n" and lt: "n < 1024 ^ 4" and "\<not> unit_index n < 4"
  then have "4 \<le> unit_index n" by simp
  then have "(1024::int) ^ 4 \<le> 1024 ^ unit_index n"
    by (intro power_increasing) simp_all
  with unit_index_bounds [OF pos] lt show False by linarith
qed

subsection \<open>Validation\<close>

text \<open>
  C5 (amended). \<open>validateFile\<close> rejects every upload whose media type is not allowed and
  every upload whose size exceeds the configured maximum; when the media type is allowed
  and the size exceeds the maximum, the message contains the limit in MB; every present
  upload with an allowed type and a size within the limit is accepted. The verdict is a
  function of the configuration and the upload alone.
\<close>

theorem validateFile_verdicts:
  "(mimetype f \<notin> set (allowedMimeTypes cfg) \<longrightarrow>
      \<not> success (validateFile toString cfg (Some f)))
   \<and> (maxFileSize cfg < file_size f \<longrightarrow>
      \<not> success (validateFile toString cfg (Some f)))
   \<and> (mimetype f \<in> set (allowedMimeTypes cfg) \<and> maxFileSize cfg < file_size f \<longrightarrow>
      str_includes (message (validateFile toString cfg (Some f)))
        (toString (of_int (maxFileSize cfg) / (1024 * 1024))))
   \<and> (mimetype f \<in> set (allowedMimeTypes cfg) \<and> file_size f \<le> maxFileSize cfg \<longrightarrow>
      success (validateFile toString cfg (Some f)))"
proof -
  let ?v = "validateFile toString cfg (Some f)"
  let ?mb = "toString (of_int (maxFileSize cfg) / (1024 * 1024))"
  have bad_type: "\<not> success ?v" if "mimetype f \<notin> set (allowedMimeTypes cfg)"
    using that by (simp add: validateFile_def)
  have too_big: "\<not> success ?v" if "maxFileSize cfg < file_size f"
    using that by (simp add: validateFile_def Let_def)
  have msg: "str_includes (message ?v) ?mb"
    if "mimetype f \<in> set (allowedMimeTypes cfg)" "maxFileSize cfg < file_size f"
  proof -
    have "message ?v = ''File size exceeds '' @ ?mb @ '' MB limit''"
      using that by (simp add: validateFile_def Let_def)
    then show ?thesis by (simp only: str_includes_append)
  qed
  have ok: "success ?v"
    if "mimetype f \<in> set (allowedMimeTypes cfg)" "file_size f \<le> maxFileSize cfg"
    using that by (simp add: validateFile_def)
  from bad_type too_big msg ok show ?thesis by blast
qed

theorem validateFile_verdicts_witness:
  "mimetype png_upload \<notin> set (allowedMimeTypes config0)
   \<and> \<not> success (validateFile number_toString config0 (Some png_upload))
   \<and> mimetype big_pdf_upload \<in> set (allowedMimeTypes config0)
   \<and> maxFileSize config0 < file_size big_pdf_upload
   \<and> \<not> success (validateFile number_toString config0 (Some big_pdf_upload))
   \<and> str_includes (message (validateFile number_toString config0 (Some big_pdf_upload)))
        (number_toString (of_int (maxFileSize config0) / (1024 * 1024)))
   \<and> number_toString (of_int (maxFileSize config0) / (1024 * 1024)) = ''250''
   \<and> mimetype small_pdf_upload \<in> set (allowedMimeTypes config0)
   \<and> file_size small_pdf_upload \<le> maxFileSize config0
   \<and> success (validateFile number_toString config0 (Some small_pdf_upload))"
proof -
  have h1: "mimetype png_upload \<notin> set (allowedMimeTypes config0)" by code_simp
  have h2: "mimetype big_pdf_upload \<in> set (allowedMimeTypes config0)
    \<and> maxFileSize config0 < file_size big_pdf_upload" by code_simp
  have h3: "mimetype small_pdf_upload \<in> set (allowedMimeTypes config0)
    \<and> file_size small_pdf_upload \<le> maxFileSize config0" by code_simp
  have r: "number_toString (of_int (maxFileSize config0) / (1024 * 1024)) = ''250''" by code_simp
  from h1 h2 h3 r
    validateFile_verdicts [of png_upload config0 number_toString]
    validateFile_verdicts [of big_pdf_upload config0 number_toString]
    validateFile_verdicts [of small_pdf_upload config0 number_toString]
  show ?thesis by blast
qed

text \<open>
  An oversize upload of a media type that is not allowed is rejected with the media-type
  message, which does not contain the limit.
\<close>

theorem validateFile_oversize_wrong_type_example:
  "maxFileSize config0 < file_size png_upload
   \<and> message (validateFile number_toString config0 (Some png_upload))
       = ''Only PDF files are allowed''
   \<and> number_toString (of_int (maxFileSize config0) / (1024 * 1024)) = ''250''
   \<and> \<not> str_includes
        (message (validateFile number_toString config0 (Some png_upload)))
        (number_toString (of_int (maxFileSize config0) / (1024 * 1024)))"
  by code_simp

subsection \<open>Formatting byte counts\<close>

text \<open>
  C6 (amended). \<open>formatBytes 0\<close> is \<^verbatim>\<open>'0 Bytes'\<close>, \<open>formatBytes 1536\<close> is \<^verbatim>\<open>'1.5 KB'\<close>, and
  for every positive byte count below \<open>1024 ^ 4\<close> the unit index is
  \<open>\<lfloor>log 1024 bytes\<rfloor>\<close>, it is below 4, and the result is the value scaled by
  \<open>1024 ^ i\<close>, rounded to two decimals, followed by a space and the unit of that index
  among Bytes, KB, MB, GB.
\<close>

theorem formatBytes_spec:
  "formatBytes 0 = ''0 Bytes''
   \<and> formatBytes 1536 = ''1.5 KB''
   \<and> (0 < n \<and> n < 1024 ^ 4 \<longrightarrow>
        (\<exists>i < 4. int i = \<lfloor>log 1024 (real_of_int n)\<rfloor>
           \<and> formatBytes n =
               number_toString (of_int (round ((of_int n / (1024::rat) ^ i) * 100)) / 100)
               @ '' '' @ [''Bytes'', ''KB'', ''MB'', ''GB''] ! i))"
proof -
  have a: "formatBytes 0 = ''0 Bytes''" by (simp add: formatBytes_def)
  have b: "formatBytes 1536 = ''1.5 KB''" by code_simp
  have c: "\<exists>i < 4. int i = \<lfloor>log 1024 (real_of_int n)\<rfloor>
           \<and> formatBytes n =
               number_toString (of_int (round ((of_int n / (1024::rat) ^ i) * 100)) / 100)
               @ '' '' @ [''Bytes'', ''KB'', ''MB'', ''GB''] ! i"
    if pos: "0 < n" and lt: "n < 1024 ^ 4"
  proof (intro exI conjI)
    show "unit_index n < 4" using pos lt by (rule unit_index_less_4)
    then show "formatBytes n =
        number_toString (of_int (round ((of_int n / (1024::rat) ^ unit_index n) * 100)) / 100)
        @ '' '' @ [''Bytes'', ''KB'', ''MB'', ''GB''] ! unit_index n"
      using pos by (simp add: formatBytes_def Let_def sizes_at_def sizes_def)
    show "int (unit_index n) = \<lfloor>log 1024 (real_of_int n)\<rfloor>"
      using unit_index_floor_log [OF pos] by simp
  qed
  from a b c show ?thesis by blast
qed

theorem formatBytes_spec_witness:
  "(0::int) < 1234567 \<and> (1234567::int) < 1024 ^ 4
   \<and> formatBytes 1234567 = ''1.18 MB''
   \<and> (\<exists>i < 4. int i = \<lfloor>log 1024 (real_of_int 1234567)\<rfloor>
        \<and> formatBytes 1234567 =
             number_toString (of_int (round ((of_int 1234567 / (1024::rat) ^ i) * 100)) / 100)
             @ '' '' @ [''Bytes'', ''KB'', ''MB'', ''GB''] ! i)"
proof -
  have h: "(0::int) < 1234567 \<and> (1234567::int) < 1024 ^ 4" by simp
  have v: "formatBytes 1234567 = ''1.18 MB''" by code_simp
  from formatBytes_spec [of 1234567] h v show ?thesis by blast
qed

text \<open>From \<open>1024 ^ 4\<close> bytes on the unit index is past the four units.\<close>

theorem formatBytes_terabyte_example:
  "formatBytes (1024 ^ 4) = ''1 undefined''"
  by code_simp

subsection \<open>Argument list\<close>

lemma foldl_unshift: "foldl (\<lambda>args kv. f kv # args) base xs = rev (map f xs) @ base"
  by (induction xs arbitrary: base) simp_all

text \<open>
  C9. Every option whose value is a boolean is rendered as the bare switch \<open>-key\<close>,
  whatever the boolean; every other option as \<open>-key=value\<close>; the option flags (the
  last entry first) precede the fixed tail \<^verbatim>\<open>-sDEVICE=pdfwrite\<close>,
  \<^verbatim>\<open>-dPDFSETTINGS=<quality>\<close>, \<^verbatim>\<open>-sOutputFile=<outputPath>\<close>, \<open>inputPath\<close>, which comes
  last in that order.
\<close>

theorem buildGhostscriptCommand_shape:
  "buildGhostscriptCommand cfg inputPath outputPath =
     rev (map option_flag (options cfg))
     @ [''-sDEVICE=pdfwrite'', ''-dPDFSETTINGS='' @ defaultQuality cfg,
        ''-sOutputFile='' @ outputPath, inputPath]
   \<and> option_flag (key, BoolValue b) = ''-'' @ key
   \<and> option_flag (key, StringValue v) = ''-'' @ key @ ''='' @ v"
  unfolding buildGhostscriptCommand_def option_flag_def
  by (simp only: foldl_unshift prod.case opt_value.case simp_thms)

subsection \<open>Running Ghostscript\<close>

lemma not_found_message_marker: "str_includes not_found_message ''Ghostscript not found''"
  by code_simp

lemma exit_message_prefix: "take 13 (exit_message code err) = ''Ghostscript e''"
  by (simp add: exit_message_def)

lemma not_found_message_prefix: "take 13 not_found_message = ''Ghostscript n''"
  by (simp add: not_found_message_def)

lemma str_includes_skip:
  assumes "c \<notin> set xs"
  shows "str_includes (xs @ ys) (c # m) = str_includes ys (c # m)"
  using assms by (induction xs) auto

lemma digit_not_G: "CHR ''G'' \<noteq> digit n"
proof -
  have "nat (n mod 10) < length ''0123456789''" by simp
  then have "digit n \<in> set ''0123456789''"
    unfolding digit_def by (rule nth_mem)
  then show ?thesis by auto
qed

lemma show_digits_no_G: "CHR ''G'' \<notin> set (show_digits n)"
proof (induction n rule: show_digits.induct)
  case (1 n)
  show ?case
    using 1 by (subst show_digits.simps) (simp add: digit_not_G)
qed

lemma show_code_no_G: "CHR ''G'' \<notin> set (show_code code)"
  by (cases code) (simp_all add: show_code_def show_int_def show_digits_no_G)

lemma exit_message_marker:
  "str_includes (exit_message code err) ''Ghostscript not found''
     = str_includes err ''Ghostscript not found''"
proof -
  let ?rest = "show_code code @ '': '' @ err"
  have "exit_message code err = CHR ''G'' # (''hostscript exited with code '' @ ?rest)"
    by (simp add: exit_message_def)
  then have "str_includes (exit_message code err) ''Ghostscript not found''
      = str_includes (''hostscript exited with code '' @ ?rest) ''Ghostscript not found''"
    by simp
  also have "\<dots> = str_includes ?rest ''Ghostscript not found''"
    by (rule str_includes_skip) simp
  also have "\<dots> = str_includes ('': '' @ err) ''Ghostscript not found''"
    by (rule str_includes_skip) (rule show_code_no_G)
  also have "\<dots> = str_includes err ''Ghostscript not found''"
    by (rule str_includes_skip) simp
  finally show ?thesis .
qed

lemma not_found_neq_exit: "new_Error not_found_message \<noteq> new_Error (exit_message code err)"
proof
  assume "new_Error not_found_message = new_Error (exit_message code err)"
  then have "take 13 not_found_message = take 13 (exit_message code err)"
    by (simp add: new_Error_def)
  then show False by (simp add: exit_message_prefix not_found_message_prefix)
qed

text \<open>
  C1. The claim has the candidates tried strictly in order, one at a time: a candidate
  that cannot be found advances to the next, and a zero exit succeeds. The candidate list
  is as claimed (here for automatic detection on a Windows host with one installed
  version, and for the default configuration elsewhere). The handlers of \<^verbatim>\<open>error\<close> and
  \<^verbatim>\<open>close\<close> share one index and are not guarded against both firing for the same child.
  With the default configuration on a host where the configured path is missing and
  \<^verbatim>\<open>gs\<close> is installed: the \<^verbatim>\<open>error\<close> of the first child spawns \<^verbatim>\<open>gs\<close>, and the \<^verbatim>\<open>close\<close>
  of the same child advances again and spawns \<^verbatim>\<open>gswin64c\<close> while \<^verbatim>\<open>gs\<close> runs;
  \<^verbatim>\<open>gswin64c\<close> and \<^verbatim>\<open>gswin32c\<close> cannot be found, the index passes the end of the list,
  and the promise is rejected with \<^verbatim>\<open>Ghostscript not found\<close>; the zero exit of \<^verbatim>\<open>gs\<close>
  comes to a promise that is settled. Likewise, when the first two of three candidates
  cannot be found and the third exits with 0, the promise is rejected with
  \<^verbatim>\<open>Ghostscript not found\<close> before the third candidate has finished.
\<close>

theorem executeGhostscript_unguarded_close_example:
  "gsCommands config_auto windows_host =
     [''gs'', ''gswin64c'', ''gswin32c'',
      ''C:'' @ bs @ ''Program Files'' @ bs @ ''gs'' @ bs @ ''gs10.02.1'' @ bs @ ''bin'' @ bs @ ''gswin64c.exe'',
      ''C:'' @ bs @ ''Program Files'' @ bs @ ''gs'' @ bs @ ''gs10.02.1'' @ bs @ ''bin'' @ bs @ ''gswin32c.exe'',
      ''C:'' @ bs @ ''Program Files'' @ bs @ ''gs'' @ bs @ ''gs10.02.1'' @ bs @ ''bin'' @ bs @ ''gswin64c.exe'',
      ''C:'' @ bs @ ''Program Files'' @ bs @ ''gs'' @ bs @ ''gs10.02.1'' @ bs @ ''bin'' @ bs @ ''gswin32c.exe'']
   \<and> gsCommands config0 linux_host =
     [''D:'' @ bs @ ''ghostscriptforpdftool'' @ bs @ ''gs10.06.0'' @ bs @ ''bin'' @ bs @ ''gswin64c.exe'',
      ''gs'', ''gswin64c'', ''gswin32c'']
   \<and> executeGhostscript config0 linux_host [''--version''] (take 1 gs_installed_schedule)
       = Some \<lparr> currentCommandIndex = 1, settled = None,
                spawned = map (\<lambda>c. (c, [''--version''])) (take 2 (gsCommands config0 linux_host)) \<rparr>
   \<and> executeGhostscript config0 linux_host [''--version''] (take 2 gs_installed_schedule)
       = Some \<lparr> currentCommandIndex = 2, settled = None,
                spawned = map (\<lambda>c. (c, [''--version''])) (take 3 (gsCommands config0 linux_host)) \<rparr>
   \<and> executeGhostscript config0 linux_host [''--version''] (take 4 gs_installed_schedule)
       = Some \<lparr> currentCommandIndex = 4, settled = Some (Inl (new_Error not_found_message)),
                spawned = map (\<lambda>c. (c, [''--version''])) (gsCommands config0 linux_host) \<rparr>
   \<and> gs_installed_schedule ! 4 = (1, CloseEvent (Some 0) [])
   \<and> executeGhostscript config0 linux_host [''--version''] gs_installed_schedule
       = Some \<lparr> currentCommandIndex = 4, settled = Some (Inl (new_Error not_found_message)),
                spawned = map (\<lambda>c. (c, [''--version''])) (gsCommands config0 linux_host) \<rparr>
   \<and> gsCommands config_auto linux_host = [''gs'', ''gswin64c'', ''gswin32c'']
   \<and> executeGhostscript config_auto linux_host [''--version''] (take 3 third_works_schedule)
       = Some \<lparr> currentCommandIndex = 3, settled = Some (Inl (new_Error not_found_message)),
                spawned = map (\<lambda>c. (c, [''--version''])) (gsCommands config_auto linux_host) \<rparr>
   \<and> third_works_schedule ! 3 = (2, CloseEvent (Some 0) [])
   \<and> executeGhostscript config_auto linux_host [''--version''] third_works_schedule
       = Some \<lparr> currentCommandIndex = 3, settled = Some (Inl (new_Error not_found_message)),
                spawned = map (\<lambda>c. (c, [''--version''])) (gsCommands config_auto linux_host) \<rparr>"
  by code_simp

subsection \<open>Compression result\<close>

text \<open>
  C10. On every successful \<open>compress\<close> call the result has
  \<open>savedBytes = originalBytes - compressedBytes\<close>, where \<open>originalBytes\<close> is the size of
  the input before the run and \<open>compressedBytes\<close> the size of the output after it; the
  ratio of the same result is never negative; when the output is larger than the input,
  \<open>savedBytes\<close> is negative while the ratio is 0.
\<close>

theorem compress_savedBytes:
  assumes "compress stat_before stat_after cfg h events inputPath outputPath = Some (Inr r)"
  shows "savedBytes r = originalBytes r - compressedBytes r
       \<and> stat_before inputPath = Inr (originalBytes r)
       \<and> stat_after outputPath = Inr (compressedBytes r)
       \<and> compressionRatio r = calculateCompressionRatio (originalBytes r) (compressedBytes r)
       \<and> 0 \<le> compressionRatio r
       \<and> (0 \<le> originalBytes r \<and> originalBytes r < compressedBytes r
            \<longrightarrow> savedBytes r < 0 \<and> compressionRatio r = 0)"
proof -
  from assms have t: "compress_try stat_before stat_after cfg h events inputPath outputPath = Some (Inr r)"
    by (auto simp: compress_def split: option.splits sum.splits if_splits)
  then obtain n m where
    n: "stat_before inputPath = Inr n" and m: "stat_after outputPath = Inr m"
    and r: "r = \<lparr> result_success = True, originalSize = formatBytes n, compressedSize = formatBytes m,
        originalBytes = n, compressedBytes = m,
        compressionRatio = calculateCompressionRatio n m,
        savedBytes = n - m, savedFormatted = formatBytes (n - m) \<rparr>"
    by (auto simp: compress_try_def getFileSize_def Let_def split: option.splits sum.splits)
  show ?thesis
    using n m calculateCompressionRatio_nonneg [of n m] calculateCompressionRatio_larger_output [of n m]
    by (simp add: r)
qed

theorem compress_savedBytes_witness:
  "gsCommands config_auto linux_host = [''gs'', ''gswin64c'', ''gswin32c'']
   \<and> compress (stat_files [(example_input, 1000)])
       (stat_files [(example_output, 1200), (example_input, 1000)])
       config_auto linux_host gs_first_schedule example_input example_output
     = Some (Inr grown_result)
   \<and> savedBytes grown_result = originalBytes grown_result - compressedBytes grown_result
   \<and> 0 \<le> originalBytes grown_result
   \<and> originalBytes grown_result < compressedBytes grown_result
   \<and> savedBytes grown_result = - 200
   \<and> savedBytes grown_result < 0
   \<and> compressionRatio grown_result = 0"
proof -
  have cs: "gsCommands config_auto linux_host = [''gs'', ''gswin64c'', ''gswin32c'']"
    by code_simp
  have run: "compress (stat_files [(example_input, 1000)])
       (stat_files [(example_output, 1200), (example_input, 1000)])
       config_auto linux_host gs_first_schedule example_input example_output
     = Some (Inr grown_result)"
    by code_simp
  have larger: "0 \<le> originalBytes grown_result
      \<and> originalBytes grown_result < compressedBytes grown_result"
    by (simp add: grown_result_def)
  have val: "savedBytes grown_result = - 200"
    by (simp add: grown_result_def)
  from cs run compress_savedBytes [OF run] larger val show ?thesis by blast
qed

subsection \<open>Sweep\<close>








lemma fileExists_iff:
  assumes "fs d = Inr entries"
  shows "fileExists fs d f \<longleftrightarrow> (\<exists>e \<in> set entries. entry_name e = f)"
proof -
  have "fileExists fs d f \<longleftrightarrow> find (\<lambda>e. entry_name e = f) entries \<noteq> None"
    using assms by (simp add: fileExists_def lookup_entry_def split: option.splits)
  also have "\<dots> \<longleftrightarrow> (\<exists>e \<in> set entries. entry_name e = f)"
    by (auto simp: find_None_iff)
  finally show ?thesis .
qed









subsection \<open>Download\<close>

lemma fs_unlink_removes:
  assumes "fs_unlink fs d f = Inr fs'"
  shows "\<not> fileExists fs' d f"
proof -
  from assms obtain entries where es: "fs d = Inr entries"
    and fs': "fs' = fs (d := Inr (filter (\<lambda>e. entry_name e \<noteq> f) entries))"
    by (auto simp: fs_unlink_def lookup_entry_def split: sum.splits option.splits)
  have "fs' d = Inr (filter (\<lambda>e. entry_name e \<noteq> f) entries)" by (simp add: fs')
  from fileExists_iff [of fs' d, OF this] show ?thesis by simp
qed

text \<open>
  C3 (amended). After serving an existing output file the download handler deletes it
  only when the transfer succeeded: when the transfer failed the error is logged and the
  file system is unchanged; when it succeeded the file is unlinked, and if \<^verbatim>\<open>fs.unlink\<close>
  succeeds the file no longer exists, else the failure is logged and the file stays.
\<close>

theorem download_deletes_after_successful_transfer:
  assumes "fileExists fs (compressedDir cfg) filename"
  shows "(err = Some e \<longrightarrow>
            download_handler cfg fs err filename
              = (Download (compressedDir cfg) filename, [LogDownloadError e], fs))
       \<and> (err = None \<and> fs_unlink fs (compressedDir cfg) filename = Inr fs' \<longrightarrow>
            download_handler cfg fs err filename
              = (Download (compressedDir cfg) filename, [LogDeleted filename], fs')
            \<and> \<not> fileExists fs' (compressedDir cfg) filename)
       \<and> (err = None \<and> fs_unlink fs (compressedDir cfg) filename = Inl ue \<longrightarrow>
            download_handler cfg fs err filename
              = (Download (compressedDir cfg) filename, [LogDeleteError filename ue], fs))"
  using assms fs_unlink_removes [of fs "compressedDir cfg" filename fs']
  by (simp add: download_handler_def deleteFile_def)

text \<open>A transfer that failed leaves the served file in place.\<close>

theorem download_failed_transfer_keeps_file_example:
  "fileExists example_fs (compressedDir config0) ''compreport-1700006400000.pdf''
   \<and> fileExists
        (snd (snd (download_handler config0 example_fs (Some econnreset) ''compreport-1700006400000.pdf'')))
        (compressedDir config0) ''compreport-1700006400000.pdf''"
  by code_simp

theorem download_deletes_after_successful_transfer_witness:
  "fileExists example_fs (compressedDir config0) ''compreport-1700006400000.pdf''
   \<and> download_handler config0 example_fs (Some econnreset) ''compreport-1700006400000.pdf''
       = (Download (compressedDir config0) ''compreport-1700006400000.pdf'',
          [LogDownloadError econnreset], example_fs)
   \<and> fst (snd (download_handler config0 example_fs None ''compreport-1700006400000.pdf''))
       = [LogDeleted ''compreport-1700006400000.pdf'']
   \<and> \<not> fileExists (snd (snd (download_handler config0 example_fs None ''compreport-1700006400000.pdf'')))
         (compressedDir config0) ''compreport-1700006400000.pdf''
   \<and> fileExists locked_fs (compressedDir config0) ''compreport-1700006400000.pdf''
   \<and> fs_unlink locked_fs (compressedDir config0) ''compreport-1700006400000.pdf'' = Inl eperm
   \<and> download_handler config0 locked_fs None ''compreport-1700006400000.pdf''
       = (Download (compressedDir config0) ''compreport-1700006400000.pdf'',
          [LogDeleteError ''compreport-1700006400000.pdf'' eperm], locked_fs)"
proof -
  let ?f = "''compreport-1700006400000.pdf''"
  have ex: "fileExists example_fs (compressedDir config0) ?f" by code_simp
  obtain fs' where ul: "fs_unlink example_fs (compressedDir config0) ?f = Inr fs'"
    by (cases "fs_unlink example_fs (compressedDir config0) ?f")
       (simp_all add: fs_unlink_def lookup_entry_def example_fs_def config0_def default_config_def
          plain_file_def)
  note t = download_deletes_after_successful_transfer [OF ex]
  from t [of "Some econnreset" econnreset]
  have r1: "download_handler config0 example_fs (Some econnreset) ?f
       = (Download (compressedDir config0) ?f, [LogDownloadError econnreset], example_fs)"
    by blast
  from t [of None _ fs'] ul
  have r2: "download_handler config0 example_fs None ?f
       = (Download (compressedDir config0) ?f, [LogDeleted ?f], fs')
     \<and> \<not> fileExists fs' (compressedDir config0) ?f"
    by blast
  have exl: "fileExists locked_fs (compressedDir config0) ?f" by code_simp
  have ull: "fs_unlink locked_fs (compressedDir config0) ?f = Inl eperm"
    by (simp add: fs_unlink_def lookup_entry_def locked_fs_def config0_def default_config_def)
  from download_deletes_after_successful_transfer [OF exl, of None _ _ eperm] ull
  have r3: "download_handler config0 locked_fs None ?f
       = (Download (compressedDir config0) ?f, [LogDeleteError ?f eperm], locked_fs)"
    by blast
  from ex r1 r2 exl ull r3 show ?thesis by simp
qed

subsection \<open>Output file name\<close>

lemma replace_first_no_dot:
  assumes "CHR ''.'' \<notin> set base"
  shows "replace_first ''.pdf'' [] (base @ ''.pdf'') = base"
  using assms by (induction base) auto

lemma strip_extension_no_dot:
  assumes "CHR ''.'' \<notin> set base"
  shows "strip_extension (base @ ''.pdf'') = base"
proof -
  have "dropWhile (\<lambda>c. c \<noteq> CHR ''.'') (rev (base @ ''.pdf'')) = CHR ''.'' # rev base"
    by simp
  then show ?thesis by (simp add: strip_extension_def)
qed

lemma outputFilename_plain_name:
  assumes "originalname file = base @ ''.pdf''" "CHR ''.'' \<notin> set base"
  shows "outputFilename file timestamp = ''comp'' @ take 8 base @ ''-'' @ show_int timestamp @ ''.pdf''"
    and "outputFilename file timestamp = spec_outputFilename file timestamp"
  using assms
  by (simp_all add: outputFilename_def spec_outputFilename_def Let_def
      replace_first_no_dot strip_extension_no_dot)

text \<open>
  C4. The claimed name is \<^verbatim>\<open>comp\<close>, the first 8 characters of the original name with its
  extension stripped, \<^verbatim>\<open>-\<close>, the timestamp and \<^verbatim>\<open>.pdf\<close>. The handler removes the first
  occurrence of \<^verbatim>\<open>.pdf\<close> instead of the extension: for \<^verbatim>\<open>v1.pdf.final.pdf\<close> it builds
  a name from \<^verbatim>\<open>v1.final.pdf\<close>, where the claimed format builds one from \<^verbatim>\<open>v1.pdf.final\<close>.
\<close>

theorem outputFilename_first_occurrence_example:
  "outputFilename dotted_upload 1700000000000 = ''compv1.final-1700000000000.pdf''
   \<and> spec_outputFilename dotted_upload 1700000000000 = ''compv1.pdf.f-1700000000000.pdf''"
  by code_simp

end
